theory Spec2Isabelle
  imports Complex_Main
begin

section \<open>Numbers and lengths\<close>

text \<open>
  The sources are TypeScript. A \<^verbatim>\<open>number\<close> is modelled as a \<^typ>\<open>real\<close>: the
  container width is either the initial state \<^verbatim>\<open>0\<close> or an \<^verbatim>\<open>offsetWidth\<close>, a
  finite number, and the breakpoints and scale tiers are decimal constants. Products such
  as \<^verbatim>\<open>baseSize * 0.6\<close> are taken exactly; \<^verbatim>\<open>NaN\<close> and the infinities are
  outside the model.

  A template string \<^verbatim>\<open>`${v}px`\<close> is modelled as the constructor \<open>Px\<close> applied to
  the number it prints.
\<close>

datatype css_length = Px real

fun px :: "css_length \<Rightarrow> real" where
  "px (Px v) = v"

section \<open>src/utils/responsiveUtils.ts\<close>

text \<open>
  \<^verbatim>\<open>getResponsiveFontSize(width, baseSize = 16)\<close>: the default applies when the second
  argument is left out, which is \<open>None\<close> here.
\<close>

definition getResponsiveFontSize :: "real \<Rightarrow> real option \<Rightarrow> css_length" where
  "getResponsiveFontSize width baseSizeArg =
     (let baseSize = (case baseSizeArg of None \<Rightarrow> 16 | Some b \<Rightarrow> b) in
      if width < 150 then Px (max 12 (baseSize * 0.6))
      else if width < 200 then Px (max 14 (baseSize * 0.75))
      else if width < 300 then Px (max 16 (baseSize * 0.9))
      else if width < 400 then Px baseSize
      else Px (min (baseSize * 1.2) 48))"

definition getResponsivePadding :: "real \<Rightarrow> real" where
  "getResponsivePadding width =
     (if width < 150 then 8
      else if width < 250 then 12
      else 16)"

definition getResponsiveGap :: "real \<Rightarrow> real" where
  "getResponsiveGap width =
     (if width < 150 then 8
      else if width < 250 then 12
      else 16)"

section \<open>The widget renderer\<close>

subsection \<open>Scale tier\<close>

text \<open>
  \<^verbatim>\<open>getScaleFactor\<close> is a closure over the component state \<^verbatim>\<open>containerWidth\<close>;
  the state is its argument here.
\<close>

definition getScaleFactor :: "real \<Rightarrow> real" where
  "getScaleFactor containerWidth =
     (if containerWidth < 150 then 0.6
      else if containerWidth < 200 then 0.75
      else if containerWidth < 300 then 0.9
      else if containerWidth < 400 then 1
      else 1.2)"

subsection \<open>Data model\<close>

text \<open>
  \<^verbatim>\<open>dataSourceConfig\<close> is typed \<^verbatim>\<open>any\<close>. The fields the renderer reads are
  modelled as optional strings: \<open>None\<close> is a field that is absent (or \<^verbatim>\<open>null\<close>).
  \<^verbatim>\<open>seriesConfig\<close> only feeds \<^verbatim>\<open>isLineChartWidget\<close>, which is never read.
\<close>

record ds_config =
  metric :: "string option"
  title :: "string option"
  unit :: "string option"
  color :: "string option"
  colorDark :: "string option"
  colorLight :: "string option"
  icon :: "string option"

text \<open>
  \<^verbatim>\<open>interface WidgetConfig\<close>. The blobs \<^verbatim>\<open>layoutConfig\<close>,
  \<^verbatim>\<open>instanceConfig\<close> and \<^verbatim>\<open>defaultConfig\<close> are handed on to the child
  components and never read here; they are left out.
\<close>

record widget_config =
  layoutId :: string
  widgetId :: string
  name :: string
  description :: string
  type :: string
  component :: string
  dataSourceConfig :: "ds_config option"
  displayOrder :: real

text \<open>
  Modelled from the spec: the declarations of \<^verbatim>\<open>DeviceChartData\<close> and
  \<^verbatim>\<open>HierarchyChartData\<close> (\<^verbatim>\<open>services/api\<close>) are not among the sources. The spec
  calls them time-ordered sequences of metric samples (oil, water and gas flow rates);
  the fields are the ones the renderer reads. A field that is absent is \<open>None\<close>.
\<close>

record device_sample =
  ofr :: "real option"
  wfr :: "real option"
  gfr :: "real option"

record hierarchy_sample =
  totalOfr :: "real option"
  totalWfr :: "real option"
  totalGfr :: "real option"

record 's chart_data =
  chartData :: "'s list option"

type_synonym DeviceChartData = "device_sample chart_data"
type_synonym HierarchyChartData = "hierarchy_sample chart_data"

datatype time_range = Day1 | Days7 | Month1

text \<open>
  \<^verbatim>\<open>interface WidgetRendererProps\<close>. The prop \<^verbatim>\<open>chartData\<close> is the field
  \<open>deviceChartData\<close> (the name \<open>chartData\<close> is the field of the chart data itself);
  \<open>lastRefresh\<close> is a \<^verbatim>\<open>Date\<close> as its epoch milliseconds; \<open>onDelete\<close> tells
  whether the optional callback was passed. \<^verbatim>\<open>selectedDevice\<close> and
  \<^verbatim>\<open>selectedHierarchy\<close> are handed on to the child components unread.
\<close>

record props =
  widget :: widget_config
  deviceChartData :: "DeviceChartData option"
  hierarchyChartData :: "HierarchyChartData option"
  timeRange :: "time_range option"
  lastRefresh :: "int option"
  isDeviceOffline :: "bool option"
  onDelete :: bool
  isAdmin :: "bool option"

text \<open>
  What the component takes from outside its props: the hooks \<^verbatim>\<open>useTheme\<close> and
  \<^verbatim>\<open>useAuth\<close>, the state \<^verbatim>\<open>containerWidth\<close>, and the browser's
  \<^verbatim>\<open>confirm\<close>, whose answer to a message is the user's.
\<close>

record env =
  theme :: string
  token :: "string option"
  containerWidth :: real
  confirm :: "string \<Rightarrow> bool"

subsection \<open>JavaScript idioms\<close>

text \<open>\<^verbatim>\<open>x || 0\<close> on an optional number: absent and \<^verbatim>\<open>0\<close> are falsy.\<close>

fun orZero :: "real option \<Rightarrow> real" where
  "orZero None = 0"
| "orZero (Some v) = (if v = 0 then 0 else v)"

text \<open>\<^verbatim>\<open>s || d\<close> on an optional string: absent and the empty string are falsy.\<close>

fun orString :: "string option \<Rightarrow> string \<Rightarrow> string" where
  "orString None d = d"
| "orString (Some s) d = (if s = [] then d else s)"

text \<open>Truthiness of an optional string, as in \<^verbatim>\<open>!token\<close>.\<close>

fun truthy :: "string option \<Rightarrow> bool" where
  "truthy None = False"
| "truthy (Some s) = (s \<noteq> [])"

text \<open>A boolean prop with the default \<^verbatim>\<open>false\<close>.\<close>

fun orFalse :: "bool option \<Rightarrow> bool" where
  "orFalse None = False"
| "orFalse (Some b) = b"

text \<open>
  \<^verbatim>\<open>d?.chartData && d.chartData.length > 0\<close> followed by
  \<^verbatim>\<open>d.chartData[d.chartData.length - 1]\<close>: the latest sample when the data, its
  sequence and a last element are all there.
\<close>

definition latestSample :: "('s, 'm) chart_data_scheme option \<Rightarrow> 's option" where
  "latestSample d =
     (case d of
        None \<Rightarrow> None
      | Some c \<Rightarrow>
          (case chartData c of
             None \<Rightarrow> None
           | Some xs \<Rightarrow> if length xs > 0 then Some (xs ! (length xs - 1)) else None))"

text \<open>
  Absent or empty, said of a chart-data prop: the prop is missing, or its
  \<^verbatim>\<open>chartData\<close> is missing, or the sequence has no element.
\<close>

definition absentOrEmpty :: "('s, 'm) chart_data_scheme option \<Rightarrow> bool" where
  "absentOrEmpty d =
     (case d of
        None \<Rightarrow> True
      | Some c \<Rightarrow> (case chartData c of None \<Rightarrow> True | Some xs \<Rightarrow> xs = []))"

subsection \<open>Number.prototype.toFixed(2)\<close>

definition digitChar :: "nat \<Rightarrow> char" where
  "digitChar d = ''0123456789'' ! d"

function decimalDigits :: "nat \<Rightarrow> string" where
  "decimalDigits n =
     (if n < 10 then [digitChar n]
      else decimalDigits (n div 10) @ [digitChar (n mod 10)])"
  by pat_completeness auto
termination
  by (relation "measure (\<lambda>n. n)") auto

declare decimalDigits.simps [simp del]

text \<open>
  \<open>toFixed2\<close> follows the steps of ECMAScript's \<^verbatim>\<open>toFixed\<close> with two fraction
  digits on an exact number: the sign, the integer \<open>n\<close> nearest to \<open>100 * x\<close> (the
  larger one on a tie), its digits padded to three, and the point before the last two.
  From \<open>10^21\<close> on the built-in prints the number as \<^verbatim>\<open>toString\<close> does, whose
  digits are not modelled: that text is \<open>NumberToString\<close>.
\<close>

datatype number_text = Text string | NumberToString real

definition toFixed2 :: "real \<Rightarrow> number_text" where
  "toFixed2 v =
     (let s = (if v < 0 then [CHR ''-''] else []);
          x = (if v < 0 then - v else v)
      in if 10 ^ 21 \<le> x then NumberToString v
         else
           let n = nat \<lfloor>x * 100 + 1 / 2\<rfloor>;
               m = decimalDigits n;
               m' = replicate (3 - length m) (CHR ''0'') @ m;
               k = length m'
           in Text (s @ take (k - 2) m' @ [CHR ''.''] @ drop (k - 2) m'))"

subsection \<open>The delete action\<close>

text \<open>
  What \<^verbatim>\<open>handleDelete\<close> does to the outside: the dialog it shows, with the
  user's answer, and the call of the \<^verbatim>\<open>onDelete\<close> callback with its argument.
\<close>

datatype event = Confirm string bool | OnDelete string

definition deleteMessage :: "widget_config \<Rightarrow> string" where
  "deleteMessage w =
     ''Are you sure you want to delete '' @ [CHR 0x22] @ name w @ [CHR 0x22] @ [CHR ''?'']"

definition handleDelete :: "env \<Rightarrow> props \<Rightarrow> event list" where
  "handleDelete e p =
     (if \<not> onDelete p \<or> \<not> truthy (token e) then []
      else if \<not> confirm e (deleteMessage (widget p))
        then [Confirm (deleteMessage (widget p)) False]
      else [Confirm (deleteMessage (widget p)) True, OnDelete (layoutId (widget p))])"

subsection \<open>The latest metric value\<close>

text \<open>
  \<^verbatim>\<open>getMetricValue\<close> closes over the props \<^verbatim>\<open>hierarchyChartData\<close> and
  \<^verbatim>\<open>chartData\<close>. Its argument is \<^verbatim>\<open>dsConfig.metric\<close>, which may be absent;
  then no \<^verbatim>\<open>case\<close> of the \<^verbatim>\<open>switch\<close> matches.
\<close>

definition getMetricValue ::
  "HierarchyChartData option \<Rightarrow> DeviceChartData option \<Rightarrow> string option \<Rightarrow> real" where
  "getMetricValue hierarchyData deviceData metricName =
     (let value = 0 in
      case latestSample hierarchyData of
        Some latest \<Rightarrow>
          if metricName = Some ''ofr'' then orZero (totalOfr latest)
          else if metricName = Some ''wfr'' then orZero (totalWfr latest)
          else if metricName = Some ''gfr'' then orZero (totalGfr latest)
          else value
      | None \<Rightarrow>
          (case latestSample deviceData of
             Some latest \<Rightarrow>
               if metricName = Some ''ofr'' then orZero (ofr latest)
               else if metricName = Some ''wfr'' then orZero (wfr latest)
               else if metricName = Some ''gfr'' then orZero (gfr latest)
               else value
           | None \<Rightarrow> value))"

subsection \<open>Rendering\<close>

text \<open>
  The rendered tree is modelled by the branch of the \<^verbatim>\<open>switch\<close> that produced it
  and by the values the branch computes: spacing, sizes, colours and texts. Class names
  and the fixed layout styles are left out, and a child component is opaque: the view
  says which one is mounted.

  \<^verbatim>\<open>toLocaleTimeString\<close> depends on the time zone of the host and is not unfolded:
  \<open>LocaleTime d\<close> is its text for the date \<open>d\<close>.
\<close>

datatype time_text = LocaleTime int | TimeLiteral string

record refresh_card =
  rc_padding :: real
  rc_gap :: real
  rc_iconSize :: real
  rc_titleSize :: real
  rc_valueSize :: real
  rc_backgroundColor :: string
  rc_title :: string
  rc_formattedTime :: time_text

record metric_card =
  mc_padding :: real
  mc_gap :: real
  mc_iconSize :: real
  mc_titleSize :: real
  mc_valueSize :: real
  mc_unitSize :: real
  mc_backgroundColor :: string
  mc_iconSrc :: string
  mc_title :: string
  mc_value :: number_text
  mc_valueColor :: string
  mc_unit :: string

text \<open>
  \<open>CustomLineChartView b t\<close>: the line chart with its \<^verbatim>\<open>timeRange\<close> \<open>t\<close>, and the
  delete button (whose click runs \<open>handleDelete\<close>) when \<open>b\<close> holds.
  \<open>GVFWLRChartView b\<close>: the charts with their \<^verbatim>\<open>isDeviceOffline\<close>.
  \<open>UnknownWidgetView l c\<close>: the fallback, its label \<open>l\<close> above the component string \<open>c\<close>.
\<close>

datatype view =
    CustomLineChartView bool time_range
  | LastRefreshCardView refresh_card
  | MetricsCardView metric_card
  | GVFWLRChartView bool
  | ProductionMapView
  | UnknownWidgetView string string

text \<open>The empty object of \<^verbatim>\<open>widget.dataSourceConfig || {}\<close>.\<close>

definition emptyConfig :: ds_config where
  "emptyConfig =
     \<lparr>metric = None, title = None, unit = None, color = None, colorDark = None,
      colorLight = None, icon = None\<rparr>"

text \<open>\<^verbatim>\<open>const dsConfig = widget.dataSourceConfig || {}\<close>.\<close>

definition dsConfigOf :: "widget_config \<Rightarrow> ds_config" where
  "dsConfigOf w = (case dataSourceConfig w of None \<Rightarrow> emptyConfig | Some c \<Rightarrow> c)"

definition WidgetRenderer :: "env \<Rightarrow> props \<Rightarrow> view" where
  "WidgetRenderer e p =
     (let dsConfig = dsConfigOf (widget p);
          width = containerWidth e;
          dark = (theme e = ''dark'')
      in
      if component (widget p) = ''CustomLineChart'' then
        CustomLineChartView (orFalse (isAdmin p) \<and> onDelete p)
          (case timeRange p of None \<Rightarrow> Day1 | Some t \<Rightarrow> t)
      else if component (widget p) = ''MetricsCard'' then
        (if metric dsConfig = Some ''last_refresh'' then
           (let formattedTime =
                  (case lastRefresh p of
                     Some d \<Rightarrow> LocaleTime d
                   | None \<Rightarrow> TimeLiteral ''--:--:--'');
                padding = (if width < 150 then 8 else if width < 250 then 12 else 16);
                gap = (if width < 150 then 8 else if width < 250 then 10 else 12);
                iconSize = max 32 (min 40 (width * 0.25));
                titleSize = max 10 (min 14 (width * 0.08));
                valueSize = max 18 (min 36 (width * 0.3))
            in LastRefreshCardView
                 \<lparr>rc_padding = padding, rc_gap = gap, rc_iconSize = iconSize,
                  rc_titleSize = titleSize, rc_valueSize = valueSize,
                  rc_backgroundColor = orString (color dsConfig) ''#d82e75'',
                  rc_title = ''Last Refresh'',
                  rc_formattedTime = formattedTime\<rparr>)
         else
           (let value = getMetricValue (hierarchyChartData p) (deviceChartData p) (metric dsConfig);
                padding = (if width < 150 then 8 else if width < 250 then 12 else 16);
                gap = (if width < 150 then 8 else if width < 250 then 10 else 12);
                iconSize = max 32 (min 40 (width * 0.25));
                titleSize = max 10 (min 14 (width * 0.08));
                valueSize = max 18 (min 36 (width * 0.3));
                unitSize = max 10 (min 16 (width * 0.08))
            in MetricsCardView
                 \<lparr>mc_padding = padding, mc_gap = gap, mc_iconSize = iconSize,
                  mc_titleSize = titleSize, mc_valueSize = valueSize, mc_unitSize = unitSize,
                  mc_backgroundColor =
                    (if dark then orString (colorDark dsConfig) ''#4D3DF7''
                     else orString (colorLight dsConfig) ''#F56C44''),
                  mc_iconSrc = orString (icon dsConfig) ''/oildark.png'',
                  mc_title = orString (title dsConfig) ''Metric'',
                  mc_value = toFixed2 value,
                  mc_valueColor =
                    (if orFalse (isDeviceOffline p)
                     then (if dark then ''#6b7280'' else ''#9ca3af'')
                     else (if dark then ''white'' else ''#1f2937'')),
                  mc_unit = orString (unit dsConfig) ''l/min''\<rparr>))
      else if component (widget p) = ''GVFWLRChart'' then
        GVFWLRChartView (orFalse (isDeviceOffline p))
      else if component (widget p) = ''ProductionMap'' then ProductionMapView
      else UnknownWidgetView ''Unknown widget type:'' (component (widget p)))"

text \<open>The spacing a rendered card carries; the other branches have none.\<close>

fun viewPadding :: "view \<Rightarrow> real option" where
  "viewPadding (LastRefreshCardView c) = Some (rc_padding c)"
| "viewPadding (MetricsCardView c) = Some (mc_padding c)"
| "viewPadding _ = None"

fun viewGap :: "view \<Rightarrow> real option" where
  "viewGap (LastRefreshCardView c) = Some (rc_gap c)"
| "viewGap (MetricsCardView c) = Some (mc_gap c)"
| "viewGap _ = None"

subsection \<open>Sample inputs\<close>

text \<open>
  Concrete inputs for the instances below: a widget of a given component and
  configuration, props that pass nothing but the widget, and an environment with a
  dark theme, a token, a container of the given width and a user who answers yes.
\<close>

definition sampleWidget :: "string \<Rightarrow> ds_config option \<Rightarrow> widget_config" where
  "sampleWidget c ds =
     \<lparr>layoutId = ''layout-1'', widgetId = ''widget-1'', name = ''Oil rate'',
      description = [], type = ''metric'', component = c, dataSourceConfig = ds,
      displayOrder = 0\<rparr>"

definition sampleProps :: "widget_config \<Rightarrow> props" where
  "sampleProps w =
     \<lparr>widget = w, deviceChartData = None, hierarchyChartData = None, timeRange = None,
      lastRefresh = None, isDeviceOffline = None, onDelete = False, isAdmin = None\<rparr>"

definition sampleEnv :: "real \<Rightarrow> env" where
  "sampleEnv w =
     \<lparr>theme = ''dark'', token = Some ''jwt'', containerWidth = w, confirm = (\<lambda>_. True)\<rparr>"

section \<open>Properties\<close>

subsection \<open>Auxiliary facts\<close>

lemma tiers_mono:
  fixes t1 t2 t3 t4 t5 w1 w2 :: real
  assumes "t1 \<le> t2" and "t2 \<le> t3" and "t3 \<le> t4" and "t4 \<le> t5" and "w1 \<le> w2"
  shows "(if w1 < 150 then t1 else if w1 < 200 then t2 else if w1 < 300 then t3
          else if w1 < 400 then t4 else t5)
       \<le> (if w2 < 150 then t1 else if w2 < 200 then t2 else if w2 < 300 then t3
          else if w2 < 400 then t4 else t5)"
  using assms by auto

lemma px_getResponsiveFontSize:
  "px (getResponsiveFontSize w (Some b)) =
     (if w < 150 then max 12 (b * 0.6) else if w < 200 then max 14 (b * 0.75)
      else if w < 300 then max 16 (b * 0.9) else if w < 400 then b else min (b * 1.2) 48)"
  by (simp add: getResponsiveFontSize_def)

lemma getResponsiveFontSize_default:
  "getResponsiveFontSize w None = getResponsiveFontSize w (Some 16)"
  by (simp add: getResponsiveFontSize_def)

lemma fontSize_tiers_rise:
  assumes "16 \<le> b" and "b \<le> 48" and "w1 \<le> w2"
  shows "px (getResponsiveFontSize w1 (Some b)) \<le> px (getResponsiveFontSize w2 (Some b))"
proof -
  have t12: "max 12 (b * 0.6) \<le> max 14 (b * 0.75)"
    using assms(1) by (simp add: max_def)
  have t23: "max 14 (b * 0.75) \<le> max 16 (b * 0.9)"
    using assms(1) by (simp add: max_def)
  have t34: "max 16 (b * 0.9) \<le> b"
    using assms(1) by (simp add: max_def)
  have t45: "b \<le> min (b * 1.2) 48"
    using assms(1,2) by (simp add: min_def)
  show ?thesis
    unfolding px_getResponsiveFontSize
    by (rule tiers_mono [OF t12 t23 t34 t45 assms(3)])
qed

text \<open>
  The bounds on the base size cannot be dropped: a base size whose font sizes rise with
  the width lies between 16 and 48.
\<close>

lemma fontSize_bounds_needed:
  assumes "\<And>w1 w2. w1 \<le> w2 \<Longrightarrow>
     px (getResponsiveFontSize w1 (Some b)) \<le> px (getResponsiveFontSize w2 (Some b))"
  shows "16 \<le> b \<and> b \<le> 48"
proof -
  from assms [of 250 300] assms [of 300 400] show ?thesis
    by (simp add: getResponsiveFontSize_def split: if_splits)
qed

lemma latestSample_last:
  "latestSample (Some c) =
     (case chartData c of
        None \<Rightarrow> None
      | Some xs \<Rightarrow> if xs = [] then None else Some (last xs))"
  by (simp add: latestSample_def last_conv_nth split: option.splits)

lemma latestSample_None: "(latestSample d = None) = absentOrEmpty d"
  by (simp add: latestSample_def absentOrEmpty_def split: option.splits)

lemma toFixed2_zero: "toFixed2 0 = Text ''0.00''"
  by (simp add: toFixed2_def decimalDigits.simps digitChar_def)

lemma getMetricValue_no_metric: "getMetricValue h d None = 0"
  by (simp add: getMetricValue_def split: option.splits)

subsection \<open>Scale tiers\<close>

text \<open>
  C1. For every container width \<open>w\<close>, \<open>getScaleFactor\<close> is the fixed step function:
  0.6 below 150, 0.75 from 150 and below 200, 0.9 from 200 and below 300, 1 from 300 and
  below 400, and 1.2 from 400 on; so the result is always one of the five values
  0.6, 0.75, 0.9, 1 and 1.2.
\<close>

theorem getScaleFactor_table:
  "(w < 150 \<longrightarrow> getScaleFactor w = 0.6) \<and>
   (150 \<le> w \<and> w < 200 \<longrightarrow> getScaleFactor w = 0.75) \<and>
   (200 \<le> w \<and> w < 300 \<longrightarrow> getScaleFactor w = 0.9) \<and>
   (300 \<le> w \<and> w < 400 \<longrightarrow> getScaleFactor w = 1) \<and>
   (400 \<le> w \<longrightarrow> getScaleFactor w = 1.2) \<and>
   getScaleFactor w \<in> {0.6, 0.75, 0.9, 1, 1.2}"
  by (simp add: getScaleFactor_def)

theorem getScaleFactor_table_witness:
  "getScaleFactor 0 = 0.6 \<and> getScaleFactor 150 = 0.75 \<and> getScaleFactor 299 = 0.9 \<and>
   getScaleFactor 300 = 1 \<and> getScaleFactor 400 = 1.2 \<and>
   getScaleFactor 1024 \<in> {0.6, 0.75, 0.9, 1, 1.2}"
  using getScaleFactor_table [of 0] getScaleFactor_table [of 150]
    getScaleFactor_table [of 299] getScaleFactor_table [of 300]
    getScaleFactor_table [of 400] getScaleFactor_table [of 1024]
  by simp

text \<open>
  C3. The breakpoint-to-scale-factor mapping is monotonic: a wider container never gets
  a smaller scale factor.
\<close>

theorem getScaleFactor_mono:
  "w1 \<le> w2 \<Longrightarrow> getScaleFactor w1 \<le> getScaleFactor w2"
  by (simp add: getScaleFactor_def)

theorem getScaleFactor_mono_witness:
  "(199::real) \<le> 200 \<and> getScaleFactor 199 \<le> getScaleFactor 200"
proof -
  have le: "(199::real) \<le> 200" by simp
  from getScaleFactor_mono [OF le] le show ?thesis by simp
qed

subsection \<open>Responsive typography\<close>

text \<open>
  C4, as the claim states it, fails: the font size is not monotonic in the width for
  every base size. With the base size 100 the size falls from 100px at width 350 to the
  cap of 48px at width 400; with the base size 10 it falls from the floor of 16px at
  width 250 to 10px at width 300.
\<close>

theorem getResponsiveFontSize_not_mono:
  "(350::real) \<le> 400 \<and>
   px (getResponsiveFontSize 350 (Some 100)) = 100 \<and>
   px (getResponsiveFontSize 400 (Some 100)) = 48 \<and>
   \<not> px (getResponsiveFontSize 350 (Some 100)) \<le> px (getResponsiveFontSize 400 (Some 100)) \<and>
   (250::real) \<le> 300 \<and>
   px (getResponsiveFontSize 250 (Some 10)) = 16 \<and>
   px (getResponsiveFontSize 300 (Some 10)) = 10 \<and>
   \<not> px (getResponsiveFontSize 250 (Some 10)) \<le> px (getResponsiveFontSize 300 (Some 10))"
  by (simp add: getResponsiveFontSize_def)

text \<open>
  C4, amended. For every base size from 16 to 48, and for the default base size (16), the
  responsive font size is monotonic in the width: for all widths \<open>w1 \<le> w2\<close> the pixel
  value at \<open>w1\<close> is at most the pixel value at \<open>w2\<close>.
\<close>

theorem getResponsiveFontSize_mono:
  "w1 \<le> w2 \<Longrightarrow>
   (16 \<le> b \<and> b \<le> 48 \<longrightarrow>
      px (getResponsiveFontSize w1 (Some b)) \<le> px (getResponsiveFontSize w2 (Some b))) \<and>
   px (getResponsiveFontSize w1 None) \<le> px (getResponsiveFontSize w2 None)"
  using fontSize_tiers_rise [of b w1 w2]
    fontSize_tiers_rise [of 16 w1 w2]
  by (simp add: getResponsiveFontSize_default)

theorem getResponsiveFontSize_mono_witness:
  "(250::real) \<le> 350 \<and>
   px (getResponsiveFontSize 250 (Some 24)) \<le> px (getResponsiveFontSize 350 (Some 24)) \<and>
   px (getResponsiveFontSize 250 None) \<le> px (getResponsiveFontSize 350 None)"
  using getResponsiveFontSize_mono [of 250 350 24] by simp

subsection \<open>Spacing\<close>

text \<open>
  C8. \<open>getResponsivePadding\<close> and \<open>getResponsiveGap\<close> are extensionally equal: at every
  width both return 8 below 150, 12 from 150 and below 250, and 16 otherwise.
\<close>

theorem getResponsivePadding_eq_getResponsiveGap:
  "getResponsivePadding w = getResponsiveGap w \<and>
   getResponsiveGap w = (if w < 150 then 8 else if w < 250 then 12 else 16)"
  by (simp add: getResponsivePadding_def getResponsiveGap_def)

text \<open>
  C9, as the claim states it, fails for the gap: in a container 200 wide both card
  branches of the renderer use a gap of 10, where \<open>getResponsiveGap\<close> gives 12.
\<close>

theorem card_gap_differs:
  "viewGap (WidgetRenderer (sampleEnv 200) (sampleProps (sampleWidget ''MetricsCard'' None)))
     = Some 10 \<and>
   viewGap (WidgetRenderer (sampleEnv 200)
     (sampleProps (sampleWidget ''MetricsCard''
        (Some (emptyConfig\<lparr>metric := Some ''last_refresh''\<rparr>)))))
     = Some 10 \<and>
   getResponsiveGap 200 = 12"
  by (simp add: WidgetRenderer_def Let_def getResponsiveGap_def sampleEnv_def sampleProps_def
      sampleWidget_def dsConfigOf_def emptyConfig_def)

text \<open>
  C9, amended. For every container width \<open>w\<close>, the padding of a rendered MetricsCard
  (either branch) equals \<open>getResponsivePadding w\<close>. Its gap equals \<open>getResponsiveGap w\<close>
  only below 150; from 150 and below 250 the gap is 10 where the helper gives 12, and
  from 250 on it is 12 where the helper gives 16.
\<close>

theorem card_spacing:
  "component (widget p) = ''MetricsCard'' \<Longrightarrow>
   viewPadding (WidgetRenderer e p) = Some (getResponsivePadding (containerWidth e)) \<and>
   (containerWidth e < 150 \<longrightarrow>
      viewGap (WidgetRenderer e p) = Some (getResponsiveGap (containerWidth e))) \<and>
   (150 \<le> containerWidth e \<and> containerWidth e < 250 \<longrightarrow>
      viewGap (WidgetRenderer e p) = Some 10 \<and> getResponsiveGap (containerWidth e) = 12) \<and>
   (250 \<le> containerWidth e \<longrightarrow>
      viewGap (WidgetRenderer e p) = Some 12 \<and> getResponsiveGap (containerWidth e) = 16)"
  by (simp add: WidgetRenderer_def Let_def getResponsivePadding_def getResponsiveGap_def)

theorem card_spacing_witness:
  "viewPadding (WidgetRenderer (sampleEnv 100) (sampleProps (sampleWidget ''MetricsCard'' None)))
     = Some (getResponsivePadding 100) \<and>
   viewGap (WidgetRenderer (sampleEnv 100) (sampleProps (sampleWidget ''MetricsCard'' None)))
     = Some (getResponsiveGap 100) \<and>
   viewPadding (WidgetRenderer (sampleEnv 200) (sampleProps (sampleWidget ''MetricsCard'' None)))
     = Some (getResponsivePadding 200) \<and>
   viewGap (WidgetRenderer (sampleEnv 200) (sampleProps (sampleWidget ''MetricsCard'' None)))
     = Some 10 \<and>
   viewGap (WidgetRenderer (sampleEnv 300) (sampleProps (sampleWidget ''MetricsCard'' None)))
     = Some 12 \<and>
   getResponsiveGap 300 = 16"
  using card_spacing [of "sampleProps (sampleWidget ''MetricsCard'' None)" "sampleEnv 100"]
    card_spacing [of "sampleProps (sampleWidget ''MetricsCard'' None)" "sampleEnv 200"]
    card_spacing [of "sampleProps (sampleWidget ''MetricsCard'' None)" "sampleEnv 300"]
  by (simp add: sampleEnv_def sampleProps_def sampleWidget_def)

subsection \<open>Dispatch on the component\<close>

text \<open>
  C2. For every widget whose component string is none of \<open>CustomLineChart\<close>,
  \<open>MetricsCard\<close>, \<open>GVFWLRChart\<close> and \<open>ProductionMap\<close>, the renderer returns the
  fallback: the label \<open>Unknown widget type:\<close> with the component string. The result is
  that view, so no other branch is taken.
\<close>

theorem WidgetRenderer_unknown:
  "component (widget p) \<notin> {''CustomLineChart'', ''MetricsCard'', ''GVFWLRChart'', ''ProductionMap''}
   \<Longrightarrow> WidgetRenderer e p = UnknownWidgetView ''Unknown widget type:'' (component (widget p))"
  by (simp add: WidgetRenderer_def)

theorem WidgetRenderer_unknown_witness:
  "WidgetRenderer (sampleEnv 320) (sampleProps (sampleWidget ''PieChart'' None)) =
     UnknownWidgetView ''Unknown widget type:'' ''PieChart''"
  using WidgetRenderer_unknown [of "sampleProps (sampleWidget ''PieChart'' None)" "sampleEnv 320"]
  by (simp add: sampleProps_def sampleWidget_def)

subsection \<open>The latest sample\<close>

text \<open>
  C5. \<open>getMetricValue\<close> reads only the most recent sample, and the last sample wins.
  With a non-empty hierarchy sequence the value of \<open>ofr\<close>, \<open>wfr\<close> and \<open>gfr\<close> is the
  field \<open>totalOfr\<close>, \<open>totalWfr\<close> and \<open>totalGfr\<close> of its last element (0 when the
  field is absent); with the hierarchy data absent or empty and a non-empty device
  sequence it is the field \<open>ofr\<close>, \<open>wfr\<close> and \<open>gfr\<close> of the last device sample. So two
  non-empty sequences with the same last element give the same value, whatever the
  earlier samples are.
\<close>

theorem getMetricValue_last_sample:
  "(hs \<noteq> [] \<longrightarrow>
      getMetricValue (Some \<lparr>chartData = Some hs\<rparr>) d m =
        (if m = Some ''ofr'' then orZero (totalOfr (last hs))
         else if m = Some ''wfr'' then orZero (totalWfr (last hs))
         else if m = Some ''gfr'' then orZero (totalGfr (last hs))
         else 0)) \<and>
   (absentOrEmpty h \<and> ds \<noteq> [] \<longrightarrow>
      getMetricValue h (Some \<lparr>chartData = Some ds\<rparr>) m =
        (if m = Some ''ofr'' then orZero (ofr (last ds))
         else if m = Some ''wfr'' then orZero (wfr (last ds))
         else if m = Some ''gfr'' then orZero (gfr (last ds))
         else 0)) \<and>
   (hs \<noteq> [] \<and> hs' \<noteq> [] \<and> last hs = last hs' \<longrightarrow>
      getMetricValue (Some \<lparr>chartData = Some hs\<rparr>) d m =
      getMetricValue (Some \<lparr>chartData = Some hs'\<rparr>) d m) \<and>
   (ds \<noteq> [] \<and> ds' \<noteq> [] \<and> last ds = last ds' \<longrightarrow>
      getMetricValue h (Some \<lparr>chartData = Some ds\<rparr>) m =
      getMetricValue h (Some \<lparr>chartData = Some ds'\<rparr>) m)"
proof -
  have hier: "getMetricValue (Some \<lparr>chartData = Some hs\<rparr>) d m =
        (if m = Some ''ofr'' then orZero (totalOfr (last hs))
         else if m = Some ''wfr'' then orZero (totalWfr (last hs))
         else if m = Some ''gfr'' then orZero (totalGfr (last hs))
         else 0)" if "hs \<noteq> []"
    using that by (simp add: getMetricValue_def latestSample_last)
  have dev: "getMetricValue h (Some \<lparr>chartData = Some ds\<rparr>) m =
        (if m = Some ''ofr'' then orZero (ofr (last ds))
         else if m = Some ''wfr'' then orZero (wfr (last ds))
         else if m = Some ''gfr'' then orZero (gfr (last ds))
         else 0)" if "absentOrEmpty h" and "ds \<noteq> []"
    using that by (simp add: getMetricValue_def latestSample_last latestSample_None [symmetric])
  have same_hier: "getMetricValue (Some \<lparr>chartData = Some hs\<rparr>) d m =
      getMetricValue (Some \<lparr>chartData = Some hs'\<rparr>) d m"
    if "hs \<noteq> []" and "hs' \<noteq> []" and "last hs = last hs'"
    using that by (simp add: getMetricValue_def latestSample_last)
  have same_dev: "getMetricValue h (Some \<lparr>chartData = Some ds\<rparr>) m =
      getMetricValue h (Some \<lparr>chartData = Some ds'\<rparr>) m"
    if "ds \<noteq> []" and "ds' \<noteq> []" and "last ds = last ds'"
    using that by (simp add: getMetricValue_def latestSample_last split: option.splits)
  from hier dev same_hier same_dev show ?thesis by blast
qed

theorem getMetricValue_last_sample_witness:
  "getMetricValue
     (Some \<lparr>chartData = Some [\<lparr>totalOfr = Some 1, totalWfr = None, totalGfr = None\<rparr>,
                             \<lparr>totalOfr = Some 7, totalWfr = Some 2, totalGfr = None\<rparr>]\<rparr>)
     None (Some ''ofr'') = 7 \<and>
   getMetricValue None
     (Some \<lparr>chartData = Some [\<lparr>ofr = Some 3, wfr = None, gfr = None\<rparr>,
                             \<lparr>ofr = Some 5, wfr = Some 4, gfr = None\<rparr>]\<rparr>)
     (Some ''ofr'') = 5 \<and>
   getMetricValue
     (Some \<lparr>chartData = Some [\<lparr>totalOfr = Some 1, totalWfr = None, totalGfr = None\<rparr>,
                             \<lparr>totalOfr = Some 7, totalWfr = Some 2, totalGfr = None\<rparr>]\<rparr>)
     None (Some ''ofr'') =
   getMetricValue
     (Some \<lparr>chartData = Some [\<lparr>totalOfr = Some 7, totalWfr = Some 2, totalGfr = None\<rparr>]\<rparr>)
     None (Some ''ofr'') \<and>
   getMetricValue None
     (Some \<lparr>chartData = Some [\<lparr>ofr = Some 3, wfr = None, gfr = None\<rparr>,
                             \<lparr>ofr = Some 5, wfr = Some 4, gfr = None\<rparr>]\<rparr>)
     (Some ''ofr'') =
   getMetricValue None
     (Some \<lparr>chartData = Some [\<lparr>ofr = Some 9, wfr = Some 9, gfr = Some 9\<rparr>,
                             \<lparr>ofr = Some 5, wfr = Some 4, gfr = None\<rparr>]\<rparr>)
     (Some ''ofr'')"
  using getMetricValue_last_sample
    [where hs = "[\<lparr>totalOfr = Some 1, totalWfr = None, totalGfr = None\<rparr>,
                  \<lparr>totalOfr = Some 7, totalWfr = Some 2, totalGfr = None\<rparr>]"
       and hs' = "[\<lparr>totalOfr = Some 7, totalWfr = Some 2, totalGfr = None\<rparr>]"
       and d = None and m = "Some ''ofr''" and h = None
       and ds = "[\<lparr>ofr = Some 3, wfr = None, gfr = None\<rparr>,
                  \<lparr>ofr = Some 5, wfr = Some 4, gfr = None\<rparr>]"
       and ds' = "[\<lparr>ofr = Some 9, wfr = Some 9, gfr = Some 9\<rparr>,
                   \<lparr>ofr = Some 5, wfr = Some 4, gfr = None\<rparr>]"]
  by (simp add: absentOrEmpty_def)

text \<open>
  C10. Hierarchy data takes precedence over device data: when the hierarchy data has a
  non-empty sequence, the value is computed from its last element
  (\<open>totalOfr\<close>, \<open>totalWfr\<close>, \<open>totalGfr\<close>) and is the same for every device data; the
  device data can make a difference only when the hierarchy sequence is absent or empty.
\<close>

theorem getMetricValue_hierarchy_first:
  "(hs \<noteq> [] \<longrightarrow>
      getMetricValue (Some \<lparr>chartData = Some hs\<rparr>) d m =
        (if m = Some ''ofr'' then orZero (totalOfr (last hs))
         else if m = Some ''wfr'' then orZero (totalWfr (last hs))
         else if m = Some ''gfr'' then orZero (totalGfr (last hs))
         else 0) \<and>
      getMetricValue (Some \<lparr>chartData = Some hs\<rparr>) d m =
      getMetricValue (Some \<lparr>chartData = Some hs\<rparr>) d' m) \<and>
   (getMetricValue h d m \<noteq> getMetricValue h d' m \<longrightarrow> absentOrEmpty h)"
proof -
  have "getMetricValue h d m = getMetricValue h d' m" if "\<not> absentOrEmpty h"
  proof -
    from that obtain s where "latestSample h = Some s"
      by (auto simp: latestSample_None [symmetric])
    then show ?thesis by (simp add: getMetricValue_def)
  qed
  then show ?thesis
    by (auto simp: getMetricValue_def latestSample_last)
qed

theorem getMetricValue_hierarchy_first_witness:
  "getMetricValue
     (Some \<lparr>chartData = Some [\<lparr>totalOfr = Some 1, totalWfr = None, totalGfr = None\<rparr>,
                             \<lparr>totalOfr = Some 7, totalWfr = Some 2, totalGfr = None\<rparr>]\<rparr>)
     (Some \<lparr>chartData = Some [\<lparr>ofr = Some 3, wfr = Some 5, gfr = Some 6\<rparr>]\<rparr>)
     (Some ''wfr'') = 2 \<and>
   getMetricValue
     (Some \<lparr>chartData = Some [\<lparr>totalOfr = Some 1, totalWfr = None, totalGfr = None\<rparr>,
                             \<lparr>totalOfr = Some 7, totalWfr = Some 2, totalGfr = None\<rparr>]\<rparr>)
     (Some \<lparr>chartData = Some [\<lparr>ofr = Some 3, wfr = Some 5, gfr = Some 6\<rparr>]\<rparr>)
     (Some ''wfr'') =
   getMetricValue
     (Some \<lparr>chartData = Some [\<lparr>totalOfr = Some 1, totalWfr = None, totalGfr = None\<rparr>,
                             \<lparr>totalOfr = Some 7, totalWfr = Some 2, totalGfr = None\<rparr>]\<rparr>)
     None (Some ''wfr'')"
  using getMetricValue_hierarchy_first
    [where hs = "[\<lparr>totalOfr = Some 1, totalWfr = None, totalGfr = None\<rparr>,
                  \<lparr>totalOfr = Some 7, totalWfr = Some 2, totalGfr = None\<rparr>]"
       and d = "Some \<lparr>chartData = Some [\<lparr>ofr = Some 3, wfr = Some 5, gfr = Some 6\<rparr>]\<rparr>"
       and d' = None and m = "Some ''wfr''" and h = None]
  by simp

subsection \<open>Defaults of the metric card\<close>

text \<open>
  C7. Metric formatting defaults apply when fields are absent. A MetricsCard widget
  (other than the last-refresh card) renders the value \<open>0.00\<close> when its metric field is
  missing, the title \<open>Metric\<close> when its title is missing and the unit \<open>l/min\<close> when its
  unit is missing; \<open>toFixed(2)\<close> prints 0 as \<open>0.00\<close>. \<open>getMetricValue\<close> returns 0 when
  both chart-data sources are absent or empty, when the field of the latest sample that
  the metric names is absent, and when the metric string is not recognised.
\<close>

theorem metric_defaults:
  "(component (widget p) = ''MetricsCard'' \<and>
    metric (dsConfigOf (widget p)) \<noteq> Some ''last_refresh'' \<longrightarrow>
      (\<exists>c. WidgetRenderer e p = MetricsCardView c \<and>
           (metric (dsConfigOf (widget p)) = None \<longrightarrow> mc_value c = Text ''0.00'') \<and>
           (title (dsConfigOf (widget p)) = None \<longrightarrow> mc_title c = ''Metric'') \<and>
           (unit (dsConfigOf (widget p)) = None \<longrightarrow> mc_unit c = ''l/min''))) \<and>
   toFixed2 0 = Text ''0.00'' \<and>
   (absentOrEmpty h \<and> absentOrEmpty d \<longrightarrow> getMetricValue h d m = 0) \<and>
   (hs \<noteq> [] \<and>
    (m = Some ''ofr'' \<and> totalOfr (last hs) = None \<or>
     m = Some ''wfr'' \<and> totalWfr (last hs) = None \<or>
     m = Some ''gfr'' \<and> totalGfr (last hs) = None) \<longrightarrow>
      getMetricValue (Some \<lparr>chartData = Some hs\<rparr>) d m = 0) \<and>
   (absentOrEmpty h \<and> ds \<noteq> [] \<and>
    (m = Some ''ofr'' \<and> ofr (last ds) = None \<or>
     m = Some ''wfr'' \<and> wfr (last ds) = None \<or>
     m = Some ''gfr'' \<and> gfr (last ds) = None) \<longrightarrow>
      getMetricValue h (Some \<lparr>chartData = Some ds\<rparr>) m = 0) \<and>
   (m \<notin> {Some ''ofr'', Some ''wfr'', Some ''gfr''} \<longrightarrow> getMetricValue h d m = 0)"
proof -
  have card: "\<exists>c. WidgetRenderer e p = MetricsCardView c \<and>
           (metric (dsConfigOf (widget p)) = None \<longrightarrow> mc_value c = Text ''0.00'') \<and>
           (title (dsConfigOf (widget p)) = None \<longrightarrow> mc_title c = ''Metric'') \<and>
           (unit (dsConfigOf (widget p)) = None \<longrightarrow> mc_unit c = ''l/min'')"
    if "component (widget p) = ''MetricsCard''"
      and "metric (dsConfigOf (widget p)) \<noteq> Some ''last_refresh''"
    using that by (simp add: WidgetRenderer_def Let_def toFixed2_zero getMetricValue_no_metric)
  have none: "getMetricValue h d m = 0" if "absentOrEmpty h" and "absentOrEmpty d"
    using that by (simp add: getMetricValue_def latestSample_None [symmetric])
  have hier: "getMetricValue (Some \<lparr>chartData = Some hs\<rparr>) d m = 0"
    if "hs \<noteq> []" and "m = Some ''ofr'' \<and> totalOfr (last hs) = None \<or>
     m = Some ''wfr'' \<and> totalWfr (last hs) = None \<or>
     m = Some ''gfr'' \<and> totalGfr (last hs) = None"
    using that by (auto simp: getMetricValue_def latestSample_last)
  have dev: "getMetricValue h (Some \<lparr>chartData = Some ds\<rparr>) m = 0"
    if "absentOrEmpty h" and "ds \<noteq> []" and "m = Some ''ofr'' \<and> ofr (last ds) = None \<or>
     m = Some ''wfr'' \<and> wfr (last ds) = None \<or>
     m = Some ''gfr'' \<and> gfr (last ds) = None"
    using that by (auto simp: getMetricValue_def latestSample_last latestSample_None [symmetric])
  have other: "getMetricValue h d m = 0" if "m \<notin> {Some ''ofr'', Some ''wfr'', Some ''gfr''}"
    using that by (simp add: getMetricValue_def split: option.splits)
  from card none hier dev other toFixed2_zero show ?thesis by blast
qed

theorem metric_defaults_witness:
  "(\<exists>c. WidgetRenderer (sampleEnv 320) (sampleProps (sampleWidget ''MetricsCard'' None)) =
          MetricsCardView c \<and>
        mc_value c = Text ''0.00'' \<and> mc_title c = ''Metric'' \<and> mc_unit c = ''l/min'') \<and>
   getMetricValue None (Some \<lparr>chartData = Some []\<rparr>) (Some ''ofr'') = 0 \<and>
   getMetricValue
     (Some \<lparr>chartData = Some [\<lparr>totalOfr = None, totalWfr = Some 2, totalGfr = None\<rparr>]\<rparr>)
     (Some \<lparr>chartData = Some []\<rparr>) (Some ''ofr'') = 0 \<and>
   getMetricValue None
     (Some \<lparr>chartData = Some [\<lparr>ofr = None, wfr = Some 4, gfr = None\<rparr>]\<rparr>) (Some ''ofr'') = 0 \<and>
   getMetricValue None
     (Some \<lparr>chartData = Some [\<lparr>ofr = Some 3, wfr = Some 4, gfr = Some 5\<rparr>]\<rparr>)
     (Some ''temperature'') = 0"
  using metric_defaults
    [where p = "sampleProps (sampleWidget ''MetricsCard'' None)" and e = "sampleEnv 320"
       and h = None and d = "Some \<lparr>chartData = Some []\<rparr>" and m = "Some ''ofr''"
       and hs = "[\<lparr>totalOfr = None, totalWfr = Some 2, totalGfr = None\<rparr>]"
       and ds = "[\<lparr>ofr = None, wfr = Some 4, gfr = None\<rparr>]"]
    metric_defaults
    [where p = "sampleProps (sampleWidget ''MetricsCard'' None)" and e = "sampleEnv 320"
       and h = None
       and d = "Some \<lparr>chartData = Some [\<lparr>ofr = Some 3, wfr = Some 4, gfr = Some 5\<rparr>]\<rparr>"
       and m = "Some ''temperature''"
       and hs = "[\<lparr>totalOfr = None, totalWfr = Some 2, totalGfr = None\<rparr>]"
       and ds = "[\<lparr>ofr = None, wfr = Some 4, gfr = None\<rparr>]"]
  by (simp add: sampleProps_def sampleWidget_def dsConfigOf_def emptyConfig_def
      absentOrEmpty_def)

subsection \<open>The delete action\<close>

text \<open>
  C6, as the claim states it, fails: with the callback passed and a user who answers
  yes, but no token, \<open>handleDelete\<close> returns before the dialog and never calls
  \<open>onDelete\<close>.
\<close>

theorem handleDelete_needs_token:
  "onDelete ((sampleProps (sampleWidget ''CustomLineChart'' None))\<lparr>onDelete := True\<rparr>) \<and>
   confirm ((sampleEnv 320)\<lparr>token := None\<rparr>)
     (deleteMessage
        (widget ((sampleProps (sampleWidget ''CustomLineChart'' None))\<lparr>onDelete := True\<rparr>))) \<and>
   handleDelete ((sampleEnv 320)\<lparr>token := None\<rparr>)
     ((sampleProps (sampleWidget ''CustomLineChart'' None))\<lparr>onDelete := True\<rparr>) = [] \<and>
   OnDelete ''layout-1'' \<notin> set (handleDelete ((sampleEnv 320)\<lparr>token := None\<rparr>)
     ((sampleProps (sampleWidget ''CustomLineChart'' None))\<lparr>onDelete := True\<rparr>))"
  by (simp add: handleDelete_def sampleEnv_def sampleProps_def)

text \<open>
  C6, amended. \<open>handleDelete\<close> calls \<open>onDelete\<close> with the layout id of the widget if and
  only if the callback is passed, a token is present and the user confirms the dialog;
  when the confirmation is declined, \<open>onDelete\<close> is never called.
\<close>

theorem handleDelete_gated:
  "(OnDelete l \<in> set (handleDelete e p)) =
     (onDelete p \<and> truthy (token e) \<and> confirm e (deleteMessage (widget p)) \<and>
      l = layoutId (widget p)) \<and>
   (\<not> confirm e (deleteMessage (widget p)) \<longrightarrow> OnDelete l \<notin> set (handleDelete e p))"
  by (auto simp: handleDelete_def)

theorem handleDelete_gated_witness:
  "OnDelete ''layout-1'' \<in> set (handleDelete (sampleEnv 320)
      ((sampleProps (sampleWidget ''CustomLineChart'' None))\<lparr>onDelete := True\<rparr>)) \<and>
   OnDelete ''layout-1'' \<notin> set (handleDelete ((sampleEnv 320)\<lparr>confirm := \<lambda>_. False\<rparr>)
      ((sampleProps (sampleWidget ''CustomLineChart'' None))\<lparr>onDelete := True\<rparr>))"
  using handleDelete_gated [of "''layout-1''" "sampleEnv 320"
      "(sampleProps (sampleWidget ''CustomLineChart'' None))\<lparr>onDelete := True\<rparr>"]
    handleDelete_gated [of "''layout-1''" "(sampleEnv 320)\<lparr>confirm := \<lambda>_. False\<rparr>"
      "(sampleProps (sampleWidget ''CustomLineChart'' None))\<lparr>onDelete := True\<rparr>"]
  by (simp add: sampleEnv_def sampleProps_def sampleWidget_def)

end
